theory Spec2Isabelle
  imports Main "HOL-Library.Word"
begin

section \<open>The orchestrator's state-mutation engine (orchestrator.js)\<close>

text \<open>
  The engine keeps three things on disk: the state document (state.json), the event
  journal (events.jsonl, one record per line) and a directory of knowledge files. Every
  exported function reads the files it needs, and writes them back before it returns.
  The model passes the three of them around as one record, \<open>world\<close>; a function of
  the engine becomes a function from a world to its return value and the next world.

  Conventions of the model:
  \<^item> a timestamp (an ISO-8601 string in the files) is the number of milliseconds it
    denotes, an \<open>int\<close>; \<open>new Date(s).getTime()\<close> is then the identity;
  \<^item> a call reads the system clock several times; \<open>clk k\<close> is the value of the
    \<open>k\<close>-th reading made during the call, counted from 0 in program order;
  \<^item> a JavaScript object used as a dictionary is a map over its own keys; keys that
    collide with properties inherited from \<open>Object.prototype\<close> are not modelled;
  \<^item> \<open>null\<close> and an omitted argument are \<open>None\<close>; the counters are far below
    \<open>2 ^ 53\<close>, so that a JavaScript number holding an integer is an \<open>int\<close>;
  \<^item> a thrown \<open>Error\<close> is a value of type \<open>error\<close>, by the message it carries.
\<close>

subsection \<open>Data model\<close>

datatype status = Pending | InProgress | Done

record task =
  task_id :: string
  title :: string
  task_description :: string
  task_status :: status
  task_priority :: int
  estimate :: "string option"
  assigned_to :: "string option"
  task_created_at :: int
  task_updated_at :: int
  result :: "string option"

record workstream =
  ws_description :: string
  ws_priority :: int
  ws_status :: string
  tasks :: "task list"
  ws_created_at :: int

record agent =
  agent_type :: string
  agent_status :: string
  capabilities :: "string list"
  registered_at :: int
  last_seen :: int

record lock =
  lock_agent :: string
  acquired_at :: int
  ttl_ms :: int

record state_doc =
  version :: int
  updated_at :: int
  workstreams :: "string \<rightharpoonup> workstream"
  agents :: "string \<rightharpoonup> agent"
  locks :: "string \<rightharpoonup> lock"

record event =
  ts :: int
  ev_agent :: string
  ev_action :: string
  ev_data :: "(string \<times> string option) list"

record knowledge_file =
  written_by :: string
  written_at :: int
  body :: string

record world =
  state_json :: state_doc
  events_jsonl :: "event list"
  knowledge_dir :: "string \<rightharpoonup> knowledge_file"

type_synonym clock = "nat \<Rightarrow> int"

datatype entity = Workstream | Task

datatype error =
    AlreadyExists string
  | NotFound entity string
  | InvalidState string status

text \<open>The state document written when state.json does not exist yet.\<close>

definition initial_state :: "int \<Rightarrow> state_doc" where
  "initial_state t =
     \<lparr>version = 0, updated_at = t, workstreams = Map.empty, agents = Map.empty,
      locks = Map.empty\<rparr>"

subsection \<open>JavaScript idioms\<close>

text \<open>
  \<open>x || d\<close> yields \<open>d\<close> when \<open>x\<close> is falsy: \<open>undefined\<close>, \<open>null\<close>, the empty
  string and the number 0 are.
\<close>

definition truthy_str :: "string option \<Rightarrow> bool" where
  "truthy_str x = (case x of None \<Rightarrow> False | Some s \<Rightarrow> s \<noteq> [])"

definition truthy_int :: "int option \<Rightarrow> bool" where
  "truthy_int x = (case x of None \<Rightarrow> False | Some n \<Rightarrow> n \<noteq> 0)"

definition or_str :: "string option \<Rightarrow> string \<Rightarrow> string" where
  "or_str x d = (if truthy_str x then the x else d)"

definition or_int :: "int option \<Rightarrow> int \<Rightarrow> int" where
  "or_int x d = (if truthy_int x then the x else d)"

definition or_null :: "string option \<Rightarrow> string option" where
  "or_null x = (if truthy_str x then x else None)"

text \<open>
  \<open>xs.slice(k)\<close>: a negative \<open>k\<close> counts from the end, and both ends are clamped
  to the array.
\<close>

definition slice_from :: "int \<Rightarrow> 'a list \<Rightarrow> 'a list" where
  "slice_from k xs =
     (if k < 0 then drop (nat (max (int (length xs) + k) 0)) xs else drop (nat k) xs)"

text \<open>
  \<open>xs.find(p)\<close> returns the first element that satisfies \<open>p\<close>, by reference: an
  assignment to a field of the element found changes the array. \<open>List.find\<close> is
  the lookup, and \<open>update_first\<close> the assignment.
\<close>

fun update_first :: "('a \<Rightarrow> bool) \<Rightarrow> ('a \<Rightarrow> 'a) \<Rightarrow> 'a list \<Rightarrow> 'a list" where
  "update_first p f [] = []"
| "update_first p f (x # xs) = (if p x then f x # xs else x # update_first p f xs)"

subsection \<open>Persistent store, identifiers, journal\<close>

definition loadState :: "world \<Rightarrow> state_doc" where
  "loadState w = state_json w"

definition saveState :: "state_doc \<Rightarrow> int \<Rightarrow> world \<Rightarrow> world" where
  "saveState st t w =
     w\<lparr>state_json := st\<lparr>updated_at := t, version := version st + 1\<rparr>\<rparr>"

text \<open>
  \<open>crypto.randomBytes(4).toString('hex')\<close>: each byte becomes two digits, the high
  half first, from the lowercase alphabet.
\<close>

definition hex_digit :: "nat \<Rightarrow> char" where
  "hex_digit n = ''0123456789abcdef'' ! n"

definition hex_byte :: "8 word \<Rightarrow> string" where
  "hex_byte b = [hex_digit (unat b div 16), hex_digit (unat b mod 16)]"

type_synonym bytes4 = "8 word \<times> 8 word \<times> 8 word \<times> 8 word"

fun genId :: "bytes4 \<Rightarrow> string" where
  "genId (b0, b1, b2, b3) = hex_byte b0 @ hex_byte b1 @ hex_byte b2 @ hex_byte b3"

text \<open>
  \<open>logEvent\<close> appends one record. The engine's own calls pass data whose keys are
  none of \<open>ts\<close>, \<open>agent\<close>, \<open>action\<close>, so the spread of \<open>data\<close> overrides none
  of the three.
\<close>

definition logEvent ::
  "string \<Rightarrow> string \<Rightarrow> (string \<times> string option) list \<Rightarrow> int \<Rightarrow> world \<Rightarrow> event \<times> world" where
  "logEvent agentId action data t w =
     (let ev = \<lparr>ts = t, ev_agent = agentId, ev_action = action, ev_data = data\<rparr>
      in (ev, w\<lparr>events_jsonl := events_jsonl w @ [ev]\<rparr>))"

text \<open>
  The options of \<open>getEvents\<close>. \<open>since\<close> is a timestamp, a non-empty string in
  JavaScript and so truthy whenever it is given. An empty journal file is answered
  before any filter is looked at.
\<close>

record query_opts =
  q_agent :: "string option"
  q_action :: "string option"
  q_since :: "int option"
  q_last :: "int option"

definition getEvents :: "query_opts \<Rightarrow> world \<Rightarrow> event list" where
  "getEvents opts w =
     (if events_jsonl w = [] then []
      else
        (let events = events_jsonl w;
             events = (if truthy_str (q_agent opts)
                       then filter (\<lambda>e. Some (ev_agent e) = q_agent opts) events else events);
             events = (if truthy_str (q_action opts)
                       then filter (\<lambda>e. Some (ev_action e) = q_action opts) events else events);
             events = (case q_since opts of
                         Some since \<Rightarrow> filter (\<lambda>e. ts e \<ge> since) events
                       | None \<Rightarrow> events);
             events = (if truthy_int (q_last opts)
                       then slice_from (- the (q_last opts)) events else events)
         in events))"

subsection \<open>Workstreams and tasks\<close>

record ws_opts =
  wo_description :: "string option"
  wo_priority :: "int option"

definition createWorkstream ::
  "string \<Rightarrow> ws_opts \<Rightarrow> clock \<Rightarrow> world \<Rightarrow> (error + workstream) \<times> world" where
  "createWorkstream name opts clk w =
     (let st = loadState w in
      case workstreams st name of
        Some _ \<Rightarrow> (Inl (AlreadyExists name), w)
      | None \<Rightarrow>
          (let ws = \<lparr>ws_description = or_str (wo_description opts) [],
                     ws_priority = or_int (wo_priority opts) 5,
                     ws_status = ''active'',
                     tasks = [],
                     ws_created_at = clk 0\<rparr>;
               st = st\<lparr>workstreams := (workstreams st)(name \<mapsto> ws)\<rparr>;
               w = saveState st (clk 1) w;
               w = snd (logEvent ''system'' ''workstream_created''
                          [(''workstream'', Some name)] (clk 2) w)
           in (Inr ws, w)))"

record task_opts =
  to_title :: string
  to_description :: "string option"
  to_priority :: "int option"
  to_estimate :: "string option"

definition addTask ::
  "string \<Rightarrow> task_opts \<Rightarrow> bytes4 \<Rightarrow> clock \<Rightarrow> world \<Rightarrow> (error + task) \<times> world" where
  "addTask workstream opts rnd clk w =
     (let st = loadState w in
      case workstreams st workstream of
        None \<Rightarrow> (Inl (NotFound Workstream workstream), w)
      | Some ws \<Rightarrow>
          (let task = \<lparr>task_id = genId rnd,
                       title = to_title opts,
                       task_description = or_str (to_description opts) [],
                       task_status = Pending,
                       task_priority = or_int (to_priority opts) 5,
                       estimate = or_null (to_estimate opts),
                       assigned_to = None,
                       task_created_at = clk 0,
                       task_updated_at = clk 1,
                       result = None\<rparr>;
               ws = ws\<lparr>tasks := tasks ws @ [task]\<rparr>;
               st = st\<lparr>workstreams := (workstreams st)(workstream \<mapsto> ws)\<rparr>;
               w = saveState st (clk 2) w;
               w = snd (logEvent ''system'' ''task_created''
                          [(''workstream'', Some workstream), (''task_id'', Some (task_id task)),
                           (''title'', Some (title task))] (clk 3) w)
           in (Inr task, w)))"

definition claimTask ::
  "string \<Rightarrow> string \<Rightarrow> string \<Rightarrow> clock \<Rightarrow> world \<Rightarrow> (error + task) \<times> world" where
  "claimTask workstream taskId agentId clk w =
     (let st = loadState w in
      case workstreams st workstream of
        None \<Rightarrow> (Inl (NotFound Workstream workstream), w)
      | Some ws \<Rightarrow>
          (case List.find (\<lambda>t. task_id t = taskId) (tasks ws) of
             None \<Rightarrow> (Inl (NotFound Task taskId), w)
           | Some task \<Rightarrow>
               if task_status task \<noteq> Pending
               then (Inl (InvalidState taskId (task_status task)), w)
               else
                 (let task = task\<lparr>task_status := InProgress, assigned_to := Some agentId,
                                  task_updated_at := clk 0\<rparr>;
                      ws = ws\<lparr>tasks :=
                             update_first (\<lambda>t. task_id t = taskId) (\<lambda>_. task) (tasks ws)\<rparr>;
                      st = st\<lparr>workstreams := (workstreams st)(workstream \<mapsto> ws)\<rparr>;
                      w = saveState st (clk 1) w;
                      w = snd (logEvent agentId ''task_claimed''
                                 [(''workstream'', Some workstream), (''task_id'', Some taskId)]
                                 (clk 2) w)
                  in (Inr task, w))))"

definition completeTask ::
  "string \<Rightarrow> string \<Rightarrow> string option \<Rightarrow> clock \<Rightarrow> world \<Rightarrow> (error + task) \<times> world" where
  "completeTask workstream taskId res clk w =
     (let st = loadState w in
      case workstreams st workstream of
        None \<Rightarrow> (Inl (NotFound Workstream workstream), w)
      | Some ws \<Rightarrow>
          (case List.find (\<lambda>t. task_id t = taskId) (tasks ws) of
             None \<Rightarrow> (Inl (NotFound Task taskId), w)
           | Some task \<Rightarrow>
               (let task = task\<lparr>task_status := Done, result := res,
                                task_updated_at := clk 0\<rparr>;
                    ws = ws\<lparr>tasks :=
                           update_first (\<lambda>t. task_id t = taskId) (\<lambda>_. task) (tasks ws)\<rparr>;
                    st = st\<lparr>workstreams := (workstreams st)(workstream \<mapsto> ws)\<rparr>;
                    w = saveState st (clk 1) w;
                    w = snd (logEvent (or_str (assigned_to task) ''system'') ''task_completed''
                               [(''workstream'', Some workstream), (''task_id'', Some taskId),
                                (''result'', res)] (clk 2) w)
                in (Inr task, w))))"

text \<open>
  \<open>Array.prototype.sort\<close> is stable (ECMAScript 2019), and so is \<open>sort_key\<close>; the
  comparator \<open>a.priority - b.priority\<close> orders by priority, ascending. A result of
  \<open>None\<close> is the \<open>null\<close> that stands for "no task".
\<close>

definition getNextTask ::
  "string \<Rightarrow> string \<Rightarrow> clock \<Rightarrow> world \<Rightarrow> (error + task option) \<times> world" where
  "getNextTask workstream agentId clk w =
     (let st = loadState w in
      case workstreams st workstream of
        None \<Rightarrow> (Inl (NotFound Workstream workstream), w)
      | Some ws \<Rightarrow>
          (let pending = sort_key task_priority (filter (\<lambda>t. task_status t = Pending) (tasks ws))
           in case pending of
                [] \<Rightarrow> (Inr None, w)
              | p # _ \<Rightarrow>
                  (case claimTask workstream (task_id p) agentId clk w of
                     (Inl e, w') \<Rightarrow> (Inl e, w')
                   | (Inr t, w') \<Rightarrow> (Inr (Some t), w'))))"

subsection \<open>Agents\<close>

record agent_opts =
  ao_type :: "string option"
  ao_capabilities :: "string list option"

definition registerAgent :: "string \<Rightarrow> agent_opts \<Rightarrow> clock \<Rightarrow> world \<Rightarrow> agent \<times> world" where
  "registerAgent agentId opts clk w =
     (let st = loadState w;
          a = \<lparr>agent_type = or_str (ao_type opts) ''general'',
               agent_status = ''active'',
               capabilities = (case ao_capabilities opts of Some cs \<Rightarrow> cs | None \<Rightarrow> []),
               registered_at = clk 0,
               last_seen = clk 1\<rparr>;
          st = st\<lparr>agents := (agents st)(agentId \<mapsto> a)\<rparr>;
          w = saveState st (clk 2) w;
          w = snd (logEvent agentId ''agent_registered''
                     (case ao_type opts of Some ty \<Rightarrow> [(''type'', Some ty)] | None \<Rightarrow> [])
                     (clk 3) w)
      in (a, w))"

definition heartbeat :: "string \<Rightarrow> clock \<Rightarrow> world \<Rightarrow> world" where
  "heartbeat agentId clk w =
     (let st = loadState w in
      case agents st agentId of
        Some a \<Rightarrow>
          (let a = a\<lparr>last_seen := clk 0\<rparr>;
               a = a\<lparr>agent_status := ''active''\<rparr>;
               st = st\<lparr>agents := (agents st)(agentId \<mapsto> a)\<rparr>
           in saveState st (clk 1) w)
      | None \<Rightarrow> w)"

subsection \<open>Locks\<close>

text \<open>
  The third parameter defaults to 60000 when the caller omits it. \<open>Date.now()\<close> is
  evaluated only when an entry exists, so the readings that follow are numbered from
  \<open>k = 1\<close> then and from \<open>k = 0\<close> otherwise.
\<close>

definition acquireLock ::
  "string \<Rightarrow> string \<Rightarrow> int option \<Rightarrow> clock \<Rightarrow> world \<Rightarrow> bool \<times> world" where
  "acquireLock resource agentId ttl clk w =
     (let ttlMs = (case ttl of None \<Rightarrow> 60000 | Some t \<Rightarrow> t);
          st = loadState w;
          existing = locks st resource;
          denied = (case existing of
                      None \<Rightarrow> False
                    | Some l \<Rightarrow>
                        (let expiresAt = acquired_at l + ttl_ms l
                         in clk 0 < expiresAt \<and> lock_agent l \<noteq> agentId))
      in if denied then (False, w)
         else
           (let k = (case existing of None \<Rightarrow> 0 | Some _ \<Rightarrow> 1);
                st = st\<lparr>locks := (locks st)(resource \<mapsto>
                        \<lparr>lock_agent = agentId, acquired_at = clk k, ttl_ms = ttlMs\<rparr>)\<rparr>;
                w = saveState st (clk (k + 1)) w;
                w = snd (logEvent agentId ''lock_acquired'' [(''resource'', Some resource)]
                           (clk (k + 2)) w)
            in (True, w)))"

definition releaseLock :: "string \<Rightarrow> string \<Rightarrow> clock \<Rightarrow> world \<Rightarrow> bool \<times> world" where
  "releaseLock resource agentId clk w =
     (let st = loadState w in
      case locks st resource of
        None \<Rightarrow> (False, w)
      | Some l \<Rightarrow>
          if lock_agent l = agentId
          then (let st = st\<lparr>locks := (locks st)(resource := None)\<rparr>;
                    w = saveState st (clk 0) w;
                    w = snd (logEvent agentId ''lock_released''
                               [(''resource'', Some resource)] (clk 1) w)
                in (True, w))
          else (False, w))"

subsection \<open>Knowledge store\<close>

text \<open>
  A knowledge file is the header line, which records who wrote it and when, followed by
  the content; the model keeps the three parts apart. \<open>agentId\<close> defaults to
  \<open>system\<close> when the caller omits it.
\<close>

definition writeKnowledge ::
  "string \<Rightarrow> string \<Rightarrow> string option \<Rightarrow> clock \<Rightarrow> world \<Rightarrow> world" where
  "writeKnowledge topic content agent clk w =
     (let agentId = (case agent of None \<Rightarrow> ''system'' | Some a \<Rightarrow> a);
          file = \<lparr>written_by = agentId, written_at = clk 0, body = content\<rparr>;
          w = w\<lparr>knowledge_dir := (knowledge_dir w)(topic \<mapsto> file)\<rparr>
      in snd (logEvent agentId ''knowledge_written'' [(''topic'', Some topic)] (clk 1) w))"

definition readKnowledge :: "string \<Rightarrow> world \<Rightarrow> knowledge_file option" where
  "readKnowledge topic w = knowledge_dir w topic"

definition deleteKnowledge :: "string \<Rightarrow> string option \<Rightarrow> clock \<Rightarrow> world \<Rightarrow> bool \<times> world" where
  "deleteKnowledge topic agent clk w =
     (let agentId = (case agent of None \<Rightarrow> ''system'' | Some a \<Rightarrow> a) in
      case knowledge_dir w topic of
        None \<Rightarrow> (False, w)
      | Some _ \<Rightarrow>
          (let w = w\<lparr>knowledge_dir := (knowledge_dir w)(topic := None)\<rparr>;
               w = snd (logEvent agentId ''knowledge_deleted'' [(''topic'', Some topic)] (clk 0) w)
           in (True, w)))"

subsection \<open>The engine's calls, uniformly\<close>

text \<open>
  One constructor for each exported function that writes, with the arguments of the
  call; \<open>exec\<close> runs it, and returns what the function returns or raises.
\<close>

datatype call =
    CreateWorkstream string ws_opts
  | AddTask string task_opts bytes4
  | ClaimTask string string string
  | CompleteTask string string "string option"
  | GetNextTask string string
  | RegisterAgent string agent_opts
  | Heartbeat string
  | AcquireLock string string "int option"
  | ReleaseLock string string
  | WriteKnowledge string string "string option"
  | DeleteKnowledge string "string option"
  | LogEvent string string "(string \<times> string option) list"

datatype retval =
    RWorkstream workstream
  | RTask task
  | RNull
  | RAgent agent
  | RBool bool
  | REvent event
  | RUndefined

fun exec :: "call \<Rightarrow> clock \<Rightarrow> world \<Rightarrow> (error + retval) \<times> world" where
  "exec (CreateWorkstream name opts) clk w =
     (case createWorkstream name opts clk w of
        (Inl e, w') \<Rightarrow> (Inl e, w') | (Inr ws, w') \<Rightarrow> (Inr (RWorkstream ws), w'))"
| "exec (AddTask workstream opts rnd) clk w =
     (case addTask workstream opts rnd clk w of
        (Inl e, w') \<Rightarrow> (Inl e, w') | (Inr t, w') \<Rightarrow> (Inr (RTask t), w'))"
| "exec (ClaimTask workstream taskId agentId) clk w =
     (case claimTask workstream taskId agentId clk w of
        (Inl e, w') \<Rightarrow> (Inl e, w') | (Inr t, w') \<Rightarrow> (Inr (RTask t), w'))"
| "exec (CompleteTask workstream taskId res) clk w =
     (case completeTask workstream taskId res clk w of
        (Inl e, w') \<Rightarrow> (Inl e, w') | (Inr t, w') \<Rightarrow> (Inr (RTask t), w'))"
| "exec (GetNextTask workstream agentId) clk w =
     (case getNextTask workstream agentId clk w of
        (Inl e, w') \<Rightarrow> (Inl e, w')
      | (Inr None, w') \<Rightarrow> (Inr RNull, w')
      | (Inr (Some t), w') \<Rightarrow> (Inr (RTask t), w'))"
| "exec (RegisterAgent agentId opts) clk w =
     (case registerAgent agentId opts clk w of (a, w') \<Rightarrow> (Inr (RAgent a), w'))"
| "exec (Heartbeat agentId) clk w = (Inr RUndefined, heartbeat agentId clk w)"
| "exec (AcquireLock resource agentId ttl) clk w =
     (case acquireLock resource agentId ttl clk w of (b, w') \<Rightarrow> (Inr (RBool b), w'))"
| "exec (ReleaseLock resource agentId) clk w =
     (case releaseLock resource agentId clk w of (b, w') \<Rightarrow> (Inr (RBool b), w'))"
| "exec (WriteKnowledge topic content agent) clk w =
     (Inr RUndefined, writeKnowledge topic content agent clk w)"
| "exec (DeleteKnowledge topic agent) clk w =
     (case deleteKnowledge topic agent clk w of (b, w') \<Rightarrow> (Inr (RBool b), w'))"
| "exec (LogEvent agentId action data) clk w =
     (case logEvent agentId action data (clk 0) w of (ev, w') \<Rightarrow> (Inr (REvent ev), w'))"

text \<open>
  The calls the version invariant is about: a mutation of the state document that
  completes. \<open>heartbeat\<close> returns nothing in either case, so there the agent's
  presence decides.
\<close>

fun successful_mutation :: "call \<Rightarrow> clock \<Rightarrow> world \<Rightarrow> bool" where
  "successful_mutation (GetNextTask workstream agentId) clk w =
     (case fst (exec (GetNextTask workstream agentId) clk w) of
        Inr (RTask _) \<Rightarrow> True | _ \<Rightarrow> False)"
| "successful_mutation (Heartbeat agentId) clk w = (agents (state_json w) agentId \<noteq> None)"
| "successful_mutation (AcquireLock resource agentId ttl) clk w =
     (fst (exec (AcquireLock resource agentId ttl) clk w) = Inr (RBool True))"
| "successful_mutation (ReleaseLock resource agentId) clk w =
     (fst (exec (ReleaseLock resource agentId) clk w) = Inr (RBool True))"
| "successful_mutation (WriteKnowledge topic content agent) clk w = False"
| "successful_mutation (DeleteKnowledge topic agent) clk w = False"
| "successful_mutation (LogEvent agentId action data) clk w = False"
| "successful_mutation c clk w = (case fst (exec c clk w) of Inr _ \<Rightarrow> True | Inl _ \<Rightarrow> False)"

text \<open>Which reading of the clock \<open>saveState\<close> makes, in each call that saves.\<close>

fun save_reading :: "call \<Rightarrow> world \<Rightarrow> nat" where
  "save_reading (CreateWorkstream name opts) w = 1"
| "save_reading (AddTask workstream opts rnd) w = 2"
| "save_reading (ClaimTask workstream taskId agentId) w = 1"
| "save_reading (CompleteTask workstream taskId res) w = 1"
| "save_reading (GetNextTask workstream agentId) w = 1"
| "save_reading (RegisterAgent agentId opts) w = 2"
| "save_reading (Heartbeat agentId) w = 1"
| "save_reading (AcquireLock resource agentId ttl) w =
     (case locks (state_json w) resource of None \<Rightarrow> 1 | Some _ \<Rightarrow> 2)"
| "save_reading (ReleaseLock resource agentId) w = 0"
| "save_reading (WriteKnowledge topic content agent) w = 0"
| "save_reading (DeleteKnowledge topic agent) w = 0"
| "save_reading (LogEvent agentId action data) w = 0"

text \<open>
  A failing call: one that raises, or returns the value that signals a denial or an
  absence (\<open>false\<close>, or \<open>null\<close> for "no task").
\<close>

fun failed :: "error + retval \<Rightarrow> bool" where
  "failed (Inl e) = True"
| "failed (Inr (RBool b)) = (\<not> b)"
| "failed (Inr RNull) = True"
| "failed (Inr r) = False"

text \<open>
  What the event query selects, in the words of the specification: a record matches
  when it satisfies every filter that is given. A filter on a string is given when the
  string is non-empty.
\<close>

definition matches :: "query_opts \<Rightarrow> event \<Rightarrow> bool" where
  "matches opts e =
     ((if truthy_str (q_agent opts) then Some (ev_agent e) = q_agent opts else True) \<and>
      (if truthy_str (q_action opts) then Some (ev_action e) = q_action opts else True) \<and>
      (case q_since opts of None \<Rightarrow> True | Some since \<Rightarrow> since \<le> ts e))"

subsection \<open>Sample inputs\<close>

text \<open>A clock that stands still, and one that advances by a millisecond at each reading.\<close>

definition const_clock :: "int \<Rightarrow> clock" where
  "const_clock t k = t"

definition ticking_clock :: "int \<Rightarrow> clock" where
  "ticking_clock t k = t + int k"

definition world0 :: world where
  "world0 = \<lparr>state_json = initial_state 0, events_jsonl = [], knowledge_dir = Map.empty\<rparr>"

definition no_ws_opts :: ws_opts where
  "no_ws_opts = \<lparr>wo_description = None, wo_priority = None\<rparr>"

definition opts_T :: "int option \<Rightarrow> task_opts" where
  "opts_T p = \<lparr>to_title = ''T'', to_description = None, to_priority = p, to_estimate = None\<rparr>"

definition world_w :: world where
  "world_w = snd (createWorkstream ''w'' no_ws_opts (const_clock 100) world0)"

definition world_tasks :: world where
  "world_tasks =
     snd (addTask ''w'' (opts_T (Some 1)) (0xCA, 0xFE, 0x00, 0x02) (const_clock 300)
       (snd (addTask ''w'' (opts_T (Some 1)) (0xCA, 0xFE, 0x00, 0x01) (const_clock 250)
         (snd (addTask ''w'' (opts_T (Some 3)) (0xCA, 0xFE, 0x00, 0x00) (const_clock 200)
            world_w)))))"

definition world_locked :: "int \<Rightarrow> world" where
  "world_locked ttl = snd (acquireLock ''res'' ''a1'' (Some ttl) (const_clock 1000) world0)"

definition last_opts :: "int \<Rightarrow> query_opts" where
  "last_opts n = \<lparr>q_agent = None, q_action = None, q_since = None, q_last = Some n\<rparr>"

definition ws_w :: "task list \<Rightarrow> workstream" where
  "ws_w xs =
     \<lparr>ws_description = [], ws_priority = 5, ws_status = ''active'', tasks = xs,
      ws_created_at = 100\<rparr>"

definition task_T :: "string \<Rightarrow> int \<Rightarrow> int \<Rightarrow> task" where
  "task_T i p t =
     \<lparr>task_id = i, title = ''T'', task_description = [], task_status = Pending,
      task_priority = p, estimate = None, assigned_to = None, task_created_at = t,
      task_updated_at = t, result = None\<rparr>"

definition task_a :: task where
  "task_a = task_T ''cafe0000'' 3 200"

definition task_b :: task where
  "task_b = task_T ''cafe0001'' 1 250"

definition task_c :: task where
  "task_c = task_T ''cafe0002'' 1 300"

definition world_claimed :: world where
  "world_claimed = snd (claimTask ''w'' ''cafe0001'' ''a1'' (const_clock 400) world_tasks)"


text \<open>
  Two tasks added with the same four random bytes: \<open>addTask\<close> never compares a new
  identifier with those already in the workstream. A third world has the older of the
  two already done.
\<close>

definition world_dup :: world where
  "world_dup =
     snd (addTask ''w'' (opts_T (Some 1)) (0xCA, 0xFE, 0x00, 0x00) (const_clock 250)
       (snd (addTask ''w'' (opts_T (Some 3)) (0xCA, 0xFE, 0x00, 0x00) (const_clock 200)
          world_w)))"

definition world_dup_done :: world where
  "world_dup_done =
     snd (addTask ''w'' (opts_T (Some 1)) (0xCA, 0xFE, 0x00, 0x00) (const_clock 250)
       (snd (completeTask ''w'' ''cafe0000'' None (const_clock 220)
         (snd (addTask ''w'' (opts_T (Some 3)) (0xCA, 0xFE, 0x00, 0x00) (const_clock 200)
            world_w)))))"

section \<open>Properties\<close>

lemmas engine_defs = loadState_def saveState_def logEvent_def Let_def

lemmas js_defs = or_str_def or_int_def or_null_def truthy_str_def truthy_int_def

lemmas sample_defs = world0_def initial_state_def const_clock_def ticking_clock_def
  no_ws_opts_def opts_T_def ws_w_def task_T_def task_a_def task_b_def task_c_def

subsection \<open>The sample worlds, evaluated\<close>


lemma world_w_eq:
  "world_w =
     \<lparr>state_json = \<lparr>version = 1, updated_at = 100, workstreams = [''w'' \<mapsto> ws_w []],
        agents = Map.empty, locks = Map.empty\<rparr>,
      events_jsonl = [\<lparr>ts = 100, ev_agent = ''system'', ev_action = ''workstream_created'',
                       ev_data = [(''workstream'', Some ''w'')]\<rparr>],
      knowledge_dir = Map.empty\<rparr>"
  by (simp add: world_w_def createWorkstream_def engine_defs js_defs sample_defs)

lemma world_tasks_eq:
  "world_tasks =
     \<lparr>state_json = \<lparr>version = 4, updated_at = 300,
        workstreams = [''w'' \<mapsto> ws_w [task_a, task_b, task_c]],
        agents = Map.empty, locks = Map.empty\<rparr>,
      events_jsonl =
        [\<lparr>ts = 100, ev_agent = ''system'', ev_action = ''workstream_created'',
          ev_data = [(''workstream'', Some ''w'')]\<rparr>,
         \<lparr>ts = 200, ev_agent = ''system'', ev_action = ''task_created'',
          ev_data = [(''workstream'', Some ''w''), (''task_id'', Some ''cafe0000''),
                     (''title'', Some ''T'')]\<rparr>,
         \<lparr>ts = 250, ev_agent = ''system'', ev_action = ''task_created'',
          ev_data = [(''workstream'', Some ''w''), (''task_id'', Some ''cafe0001''),
                     (''title'', Some ''T'')]\<rparr>,
         \<lparr>ts = 300, ev_agent = ''system'', ev_action = ''task_created'',
          ev_data = [(''workstream'', Some ''w''), (''task_id'', Some ''cafe0002''),
                     (''title'', Some ''T'')]\<rparr>],
      knowledge_dir = Map.empty\<rparr>"
  by (simp add: world_tasks_def world_w_eq addTask_def engine_defs js_defs hex_byte_def
        hex_digit_def opts_T_def const_clock_def ws_w_def task_T_def task_a_def task_b_def task_c_def)

lemma world_claimed_ws:
  "workstreams (state_json world_claimed) ''w'' =
     Some (ws_w [task_a, task_b\<lparr>task_status := InProgress, assigned_to := Some ''a1'',
                                 task_updated_at := 400\<rparr>, task_c])"
  by (simp add: world_claimed_def world_tasks_eq claimTask_def engine_defs const_clock_def
        ws_w_def task_T_def task_a_def task_b_def task_c_def)


lemma world_dup_ws:
  "workstreams (state_json world_dup) ''w'' =
     Some (ws_w [task_T ''cafe0000'' 3 200, task_T ''cafe0000'' 1 250])"
  by (simp add: world_dup_def world_w_eq addTask_def engine_defs js_defs hex_byte_def
        hex_digit_def opts_T_def const_clock_def ws_w_def task_T_def)

lemma world_dup_done_ws:
  "workstreams (state_json world_dup_done) ''w'' =
     Some (ws_w [(task_T ''cafe0000'' 3 200)\<lparr>task_status := Done, task_updated_at := 220\<rparr>,
                 task_T ''cafe0000'' 1 250])"
  by (simp add: world_dup_done_def world_w_eq addTask_def completeTask_def engine_defs js_defs
        hex_byte_def hex_digit_def opts_T_def const_clock_def ws_w_def task_T_def)

lemma world_locked_eq:
  "world_locked ttl =
     \<lparr>state_json = \<lparr>version = 1, updated_at = 1000, workstreams = Map.empty, agents = Map.empty,
        locks = [''res'' \<mapsto> \<lparr>lock_agent = ''a1'', acquired_at = 1000, ttl_ms = ttl\<rparr>]\<rparr>,
      events_jsonl = [\<lparr>ts = 1000, ev_agent = ''a1'', ev_action = ''lock_acquired'',
                       ev_data = [(''resource'', Some ''res'')]\<rparr>],
      knowledge_dir = Map.empty\<rparr>"
  by (simp add: world_locked_def acquireLock_def engine_defs sample_defs)

subsection \<open>Locks\<close>

lemma acquireLock_fst:
  "fst (acquireLock resource agentId ttl clk w) \<longleftrightarrow>
     (case locks (state_json w) resource of
        None \<Rightarrow> True
      | Some l \<Rightarrow> acquired_at l + ttl_ms l \<le> clk 0 \<or> lock_agent l = agentId)"
  by (auto simp: acquireLock_def engine_defs split: option.splits)

lemma acquireLock_snd:
  "fst (acquireLock resource agentId ttl clk w) \<Longrightarrow>
   snd (acquireLock resource agentId ttl clk w) =
     (let k = (case locks (state_json w) resource of None \<Rightarrow> 0 | Some _ \<Rightarrow> 1) in
      w\<lparr>state_json := (state_json w)
           \<lparr>locks := (locks (state_json w))(resource \<mapsto>
              \<lparr>lock_agent = agentId, acquired_at = clk k,
               ttl_ms = (case ttl of None \<Rightarrow> 60000 | Some t \<Rightarrow> t)\<rparr>),
            updated_at := clk (k + 1),
            version := version (state_json w) + 1\<rparr>,
         events_jsonl := events_jsonl w @
           [\<lparr>ts = clk (k + 2), ev_agent = agentId, ev_action = ''lock_acquired'',
             ev_data = [(''resource'', Some resource)]\<rparr>]\<rparr>)"
  by (auto simp: acquireLock_def engine_defs split: option.splits)

text \<open>
  C2, as amended. \<open>acquireLock\<close> returns \<open>true\<close> exactly when the resource has no
  entry, or the entry's expiry time \<open>acquired_at + ttl_ms\<close> is not after the clock
  (\<open>\<le>\<close>: at the very millisecond of expiry the lock is already free), or the entry's
  holder is the caller. When it does, the entry is replaced by a fresh record with a new
  \<open>acquired_at\<close> and the given \<open>ttl_ms\<close> (60000 by default), the document is saved
  with its version incremented, and one \<open>lock_acquired\<close> record is appended to the
  journal.
\<close>

theorem acquireLock_grants_iff:
  "(fst (acquireLock resource agentId ttl clk w) \<longleftrightarrow>
     (case locks (state_json w) resource of
        None \<Rightarrow> True
      | Some l \<Rightarrow> acquired_at l + ttl_ms l \<le> clk 0 \<or> lock_agent l = agentId)) \<and>
   (fst (acquireLock resource agentId ttl clk w) \<longrightarrow>
      snd (acquireLock resource agentId ttl clk w) =
        (let k = (case locks (state_json w) resource of None \<Rightarrow> 0 | Some _ \<Rightarrow> 1) in
         w\<lparr>state_json := (state_json w)
              \<lparr>locks := (locks (state_json w))(resource \<mapsto>
                 \<lparr>lock_agent = agentId, acquired_at = clk k,
                  ttl_ms = (case ttl of None \<Rightarrow> 60000 | Some t \<Rightarrow> t)\<rparr>),
               updated_at := clk (k + 1),
               version := version (state_json w) + 1\<rparr>,
            events_jsonl := events_jsonl w @
              [\<lparr>ts = clk (k + 2), ev_agent = agentId, ev_action = ''lock_acquired'',
                ev_data = [(''resource'', Some resource)]\<rparr>]\<rparr>))"
  using acquireLock_fst [of resource agentId ttl clk w]
    acquireLock_snd [of resource agentId ttl clk w]
  by blast

theorem acquireLock_grants_iff_witness:
  "fst (acquireLock ''res'' ''a2'' None (ticking_clock 6000) (world_locked 5000)) \<and>
   snd (acquireLock ''res'' ''a2'' None (ticking_clock 6000) (world_locked 5000)) =
     \<lparr>state_json = \<lparr>version = 2, updated_at = 6002, workstreams = Map.empty, agents = Map.empty,
        locks = [''res'' \<mapsto> \<lparr>lock_agent = ''a2'', acquired_at = 6001, ttl_ms = 60000\<rparr>]\<rparr>,
      events_jsonl = [\<lparr>ts = 1000, ev_agent = ''a1'', ev_action = ''lock_acquired'',
                       ev_data = [(''resource'', Some ''res'')]\<rparr>,
                      \<lparr>ts = 6003, ev_agent = ''a2'', ev_action = ''lock_acquired'',
                       ev_data = [(''resource'', Some ''res'')]\<rparr>],
      knowledge_dir = Map.empty\<rparr>"
  using acquireLock_grants_iff [of "''res''" "''a2''" None "ticking_clock 6000" "world_locked 5000"]
  by (simp add: world_locked_eq ticking_clock_def)

text \<open>
  C2 as it is written takes a lock for expired only when \<open>acquired_at + ttl_ms < now\<close>.
  Agent \<open>a1\<close> takes \<open>res\<close> at time 1000 for 5000 ms; at time 6000 exactly, agent
  \<open>a2\<close> asks for it. None of the three conditions of the claim holds, and the call
  succeeds.
\<close>

theorem acquireLock_boundary_counterexample:
  "\<not> (fst (acquireLock ''res'' ''a2'' (Some 5000) (const_clock 6000) (world_locked 5000)) \<longleftrightarrow>
        (locks (state_json (world_locked 5000)) ''res'' = None
         \<or> acquired_at (the (locks (state_json (world_locked 5000)) ''res''))
             + ttl_ms (the (locks (state_json (world_locked 5000)) ''res'')) < const_clock 6000 0
         \<or> lock_agent (the (locks (state_json (world_locked 5000)) ''res'')) = ''a2''))"
  by (simp add: world_locked_eq acquireLock_def engine_defs const_clock_def)

text \<open>
  C9. A lock whose expiry time is in the past can be taken by another agent; so can a
  lock with \<open>ttl_ms = 0\<close>, as soon as it exists: the clock read by the new call is not
  before the \<open>acquired_at\<close> of the entry, time not running backwards. The second half
  says the same of two calls in a row: after \<open>holder\<close> takes the resource with a
  time-to-live of 0, a call by another agent whose clock is not before the first call's
  succeeds, even within the same millisecond.
\<close>

theorem expired_lock_acquirable:
  "(locks (state_json w) resource = Some l \<and> lock_agent l \<noteq> agentId \<and>
    ((ttl_ms l = 0 \<and> acquired_at l \<le> clk 0) \<or> acquired_at l + ttl_ms l < clk 0) \<longrightarrow>
      fst (acquireLock resource agentId ttl clk w) \<and>
      locks (state_json (snd (acquireLock resource agentId ttl clk w))) resource =
        Some \<lparr>lock_agent = agentId, acquired_at = clk 1,
              ttl_ms = (case ttl of None \<Rightarrow> 60000 | Some t \<Rightarrow> t)\<rparr>) \<and>
   (fst (acquireLock resource holder (Some 0) clk0 w) \<and> holder \<noteq> agentId \<and>
    clk0 (case locks (state_json w) resource of None \<Rightarrow> 0 | Some _ \<Rightarrow> 1) \<le> clk 0 \<longrightarrow>
      fst (acquireLock resource agentId ttl clk
             (snd (acquireLock resource holder (Some 0) clk0 w))))"
proof (intro conjI impI)
  assume a: "locks (state_json w) resource = Some l \<and> lock_agent l \<noteq> agentId \<and>
    ((ttl_ms l = 0 \<and> acquired_at l \<le> clk 0) \<or> acquired_at l + ttl_ms l < clk 0)"
  then have g: "fst (acquireLock resource agentId ttl clk w)"
    by (auto simp: acquireLock_fst)
  then show "fst (acquireLock resource agentId ttl clk w)" .
  show "locks (state_json (snd (acquireLock resource agentId ttl clk w))) resource =
        Some \<lparr>lock_agent = agentId, acquired_at = clk 1,
              ttl_ms = (case ttl of None \<Rightarrow> 60000 | Some t \<Rightarrow> t)\<rparr>"
    using a acquireLock_snd [OF g] by simp
next
  assume b: "fst (acquireLock resource holder (Some 0) clk0 w) \<and> holder \<noteq> agentId \<and>
    clk0 (case locks (state_json w) resource of None \<Rightarrow> 0 | Some _ \<Rightarrow> 1) \<le> clk 0"
  then have "fst (acquireLock resource holder (Some 0) clk0 w)"
    by simp
  from acquireLock_snd [OF this] b
  show "fst (acquireLock resource agentId ttl clk
          (snd (acquireLock resource holder (Some 0) clk0 w)))"
    by (simp add: acquireLock_fst Let_def)
qed

theorem expired_lock_acquirable_witness:
  "fst (acquireLock ''res'' ''a2'' (Some 5000) (const_clock 1031) (world_locked 30)) \<and>
   locks (state_json (snd (acquireLock ''res'' ''a2'' (Some 5000) (const_clock 1031)
      (world_locked 30)))) ''res'' =
     Some \<lparr>lock_agent = ''a2'', acquired_at = 1031, ttl_ms = 5000\<rparr> \<and>
   fst (acquireLock ''res'' ''a2'' (Some 5000) (const_clock 1000)
          (snd (acquireLock ''res'' ''a1'' (Some 0) (const_clock 1000) world0)))"
  using expired_lock_acquirable [of "world_locked 30" "''res''"
          "\<lparr>lock_agent = ''a1'', acquired_at = 1000, ttl_ms = 30\<rparr>" "''a2''" "const_clock 1031"
          "Some 5000" "''a1''" "const_clock 1000"]
        expired_lock_acquirable [of world0 "''res''"
          "\<lparr>lock_agent = ''a1'', acquired_at = 1000, ttl_ms = 0\<rparr>" "''a2''" "const_clock 1000"
          "Some 5000" "''a1''" "const_clock 1000"]
  by (simp add: world_locked_eq const_clock_def acquireLock_fst world0_def initial_state_def)

text \<open>
  C10. \<open>releaseLock\<close> returns \<open>true\<close> exactly when the resource has an entry whose
  holder is the caller; neither the clock nor the entry's \<open>acquired_at\<close> and
  \<open>ttl_ms\<close> take part. When it does, the entry is deleted, the document is saved and
  one \<open>lock_released\<close> record is appended, also when the lock expired long ago.
\<close>

theorem releaseLock_ignores_expiry:
  "(fst (releaseLock resource agentId clk w) \<longleftrightarrow>
      (case locks (state_json w) resource of None \<Rightarrow> False | Some l \<Rightarrow> lock_agent l = agentId)) \<and>
   (locks (state_json w) resource = Some l \<and> lock_agent l = agentId \<longrightarrow>
      releaseLock resource agentId clk w =
        (True,
         w\<lparr>state_json := (state_json w)
              \<lparr>locks := (locks (state_json w))(resource := None),
               updated_at := clk 0,
               version := version (state_json w) + 1\<rparr>,
            events_jsonl := events_jsonl w @
              [\<lparr>ts = clk 1, ev_agent = agentId, ev_action = ''lock_released'',
                ev_data = [(''resource'', Some resource)]\<rparr>]\<rparr>))"
  by (auto simp: releaseLock_def engine_defs split: option.splits)

theorem releaseLock_ignores_expiry_witness:
  "acquired_at (the (locks (state_json (world_locked 30)) ''res''))
     + ttl_ms (the (locks (state_json (world_locked 30)) ''res'')) < const_clock 9000 0 \<and>
   fst (releaseLock ''res'' ''a1'' (const_clock 9000) (world_locked 30)) \<and>
   locks (state_json (snd (releaseLock ''res'' ''a1'' (const_clock 9000) (world_locked 30))))
     ''res'' = None"
  using releaseLock_ignores_expiry [of "''res''" "''a1''" "const_clock 9000" "world_locked 30"
          "\<lparr>lock_agent = ''a1'', acquired_at = 1000, ttl_ms = 30\<rparr>"]
  by (simp add: world_locked_eq const_clock_def)

subsection \<open>Claiming and completing a task\<close>

lemma find_first:
  "\<forall>u\<in>set pre. \<not> p u \<Longrightarrow> p t \<Longrightarrow> List.find p (pre @ t # post) = Some t"
  by (induction pre) auto

lemma find_absent: "\<forall>u\<in>set xs. \<not> p u \<Longrightarrow> List.find p xs = None"
  by (simp add: find_None_iff)

lemma update_first_first:
  "\<forall>u\<in>set pre. \<not> p u \<Longrightarrow> p t \<Longrightarrow> update_first p f (pre @ t # post) = pre @ f t # post"
  by (induction pre) auto

lemma claimTask_no_workstream:
  "workstreams (state_json w) n = None \<Longrightarrow>
   claimTask n i a clk w = (Inl (NotFound Workstream n), w)"
  by (simp add: claimTask_def engine_defs)

lemma claimTask_no_task:
  "workstreams (state_json w) n = Some ws \<Longrightarrow> \<forall>u\<in>set (tasks ws). task_id u \<noteq> i \<Longrightarrow>
   claimTask n i a clk w = (Inl (NotFound Task i), w)"
  by (simp add: claimTask_def engine_defs find_absent)

lemma claimTask_not_pending:
  "workstreams (state_json w) n = Some ws \<Longrightarrow> tasks ws = pre @ t # post \<Longrightarrow>
   \<forall>u\<in>set pre. task_id u \<noteq> i \<Longrightarrow> task_id t = i \<Longrightarrow> task_status t \<noteq> Pending \<Longrightarrow>
   claimTask n i a clk w = (Inl (InvalidState i (task_status t)), w)"
  by (simp add: claimTask_def engine_defs find_first)

lemma claimTask_pending:
  "workstreams (state_json w) n = Some ws \<Longrightarrow> tasks ws = pre @ t # post \<Longrightarrow>
   \<forall>u\<in>set pre. task_id u \<noteq> i \<Longrightarrow> task_id t = i \<Longrightarrow> task_status t = Pending \<Longrightarrow>
   claimTask n i a clk w =
     (Inr (t\<lparr>task_status := InProgress, assigned_to := Some a, task_updated_at := clk 0\<rparr>),
      w\<lparr>state_json := (state_json w)
           \<lparr>workstreams := (workstreams (state_json w))(n \<mapsto> ws\<lparr>tasks :=
              pre @ t\<lparr>task_status := InProgress, assigned_to := Some a,
                       task_updated_at := clk 0\<rparr> # post\<rparr>),
            updated_at := clk 1,
            version := version (state_json w) + 1\<rparr>,
         events_jsonl := events_jsonl w @
           [\<lparr>ts = clk 2, ev_agent = a, ev_action = ''task_claimed'',
             ev_data = [(''workstream'', Some n), (''task_id'', Some i)]\<rparr>]\<rparr>)"
  by (simp add: claimTask_def engine_defs find_first update_first_first)

text \<open>
  C3. The task a call names is the first one of the workstream's sequence that bears
  the identifier: the sequence is \<open>pre @ t # post\<close>, with no task of \<open>pre\<close> bearing
  it. \<open>claimTask\<close> raises NotFound when the workstream is absent, and when no task
  bears the identifier; it raises InvalidState when the task is not pending; in each
  of these cases nothing is written. Otherwise it returns the task with status
  \<open>in_progress\<close>, \<open>assigned_to\<close> the caller and a new \<open>updated_at\<close>, stores it in
  place, saves the document and appends one \<open>task_claimed\<close> record.
\<close>

theorem claimTask_contract:
  "(workstreams (state_json w) n = None \<longrightarrow>
      claimTask n i a clk w = (Inl (NotFound Workstream n), w)) \<and>
   (workstreams (state_json w) n = Some ws \<and> (\<forall>u\<in>set (tasks ws). task_id u \<noteq> i) \<longrightarrow>
      claimTask n i a clk w = (Inl (NotFound Task i), w)) \<and>
   (workstreams (state_json w) n = Some ws \<and> tasks ws = pre @ t # post \<and>
    (\<forall>u\<in>set pre. task_id u \<noteq> i) \<and> task_id t = i \<longrightarrow>
      (task_status t \<noteq> Pending \<longrightarrow>
         claimTask n i a clk w = (Inl (InvalidState i (task_status t)), w)) \<and>
      (task_status t = Pending \<longrightarrow>
         claimTask n i a clk w =
           (Inr (t\<lparr>task_status := InProgress, assigned_to := Some a,
                    task_updated_at := clk 0\<rparr>),
            w\<lparr>state_json := (state_json w)
                 \<lparr>workstreams := (workstreams (state_json w))(n \<mapsto> ws\<lparr>tasks :=
                    pre @ t\<lparr>task_status := InProgress, assigned_to := Some a,
                             task_updated_at := clk 0\<rparr> # post\<rparr>),
                  updated_at := clk 1,
                  version := version (state_json w) + 1\<rparr>,
               events_jsonl := events_jsonl w @
                 [\<lparr>ts = clk 2, ev_agent = a, ev_action = ''task_claimed'',
                   ev_data = [(''workstream'', Some n), (''task_id'', Some i)]\<rparr>]\<rparr>)))"
proof (intro conjI impI)
  assume "workstreams (state_json w) n = None"
  then show "claimTask n i a clk w = (Inl (NotFound Workstream n), w)"
    by (rule claimTask_no_workstream)
next
  assume "workstreams (state_json w) n = Some ws \<and> (\<forall>u\<in>set (tasks ws). task_id u \<noteq> i)"
  then show "claimTask n i a clk w = (Inl (NotFound Task i), w)"
    by (simp add: claimTask_no_task)
next
  assume "workstreams (state_json w) n = Some ws \<and> tasks ws = pre @ t # post \<and>
    (\<forall>u\<in>set pre. task_id u \<noteq> i) \<and> task_id t = i" and "task_status t \<noteq> Pending"
  then show "claimTask n i a clk w = (Inl (InvalidState i (task_status t)), w)"
    by (simp add: claimTask_not_pending)
next
  assume "workstreams (state_json w) n = Some ws \<and> tasks ws = pre @ t # post \<and>
    (\<forall>u\<in>set pre. task_id u \<noteq> i) \<and> task_id t = i" and "task_status t = Pending"
  then show "claimTask n i a clk w =
           (Inr (t\<lparr>task_status := InProgress, assigned_to := Some a,
                    task_updated_at := clk 0\<rparr>),
            w\<lparr>state_json := (state_json w)
                 \<lparr>workstreams := (workstreams (state_json w))(n \<mapsto> ws\<lparr>tasks :=
                    pre @ t\<lparr>task_status := InProgress, assigned_to := Some a,
                             task_updated_at := clk 0\<rparr> # post\<rparr>),
                  updated_at := clk 1,
                  version := version (state_json w) + 1\<rparr>,
               events_jsonl := events_jsonl w @
                 [\<lparr>ts = clk 2, ev_agent = a, ev_action = ''task_claimed'',
                   ev_data = [(''workstream'', Some n), (''task_id'', Some i)]\<rparr>]\<rparr>)"
    using claimTask_pending [of w n ws pre t post i a clk] by blast
qed

theorem claimTask_contract_witness:
  "claimTask ''w'' ''cafe0001'' ''a1'' (const_clock 400) world0 =
     (Inl (NotFound Workstream ''w''), world0) \<and>
   claimTask ''w'' ''cafe0001'' ''a1'' (const_clock 400) world_w =
     (Inl (NotFound Task ''cafe0001''), world_w) \<and>
   claimTask ''w'' ''cafe0001'' ''a2'' (const_clock 450) world_claimed =
     (Inl (InvalidState ''cafe0001'' InProgress), world_claimed) \<and>
   fst (claimTask ''w'' ''cafe0001'' ''a1'' (const_clock 400) world_tasks) =
     Inr (task_b\<lparr>task_status := InProgress, assigned_to := Some ''a1'',
                 task_updated_at := 400\<rparr>) \<and>
   version (state_json (snd (claimTask ''w'' ''cafe0001'' ''a1'' (const_clock 400) world_tasks)))
     = 5 \<and>
   last (events_jsonl (snd (claimTask ''w'' ''cafe0001'' ''a1'' (const_clock 400) world_tasks)))
     = \<lparr>ts = 400, ev_agent = ''a1'', ev_action = ''task_claimed'',
        ev_data = [(''workstream'', Some ''w''), (''task_id'', Some ''cafe0001'')]\<rparr>"
  using claimTask_contract [where w = world0 and n = "''w''" and i = "''cafe0001''"
          and a = "''a1''" and clk = "const_clock 400"]
        claimTask_contract [where w = world_w and n = "''w''" and i = "''cafe0001''"
          and a = "''a1''" and clk = "const_clock 400" and ws = "ws_w []"]
        claimTask_contract [where w = world_claimed and n = "''w''" and i = "''cafe0001''"
          and a = "''a2''" and clk = "const_clock 450"
          and ws = "ws_w [task_a, task_b\<lparr>task_status := InProgress, assigned_to := Some ''a1'',
                                         task_updated_at := 400\<rparr>, task_c]"
          and pre = "[task_a]"
          and t = "task_b\<lparr>task_status := InProgress, assigned_to := Some ''a1'',
                          task_updated_at := 400\<rparr>"
          and post = "[task_c]"]
        claimTask_contract [where w = world_tasks and n = "''w''" and i = "''cafe0001''"
          and a = "''a1''" and clk = "const_clock 400"
          and ws = "ws_w [task_a, task_b, task_c]"
          and pre = "[task_a]" and t = task_b and post = "[task_c]"]
  by (simp add: world_w_eq world_tasks_eq world_claimed_ws sample_defs)






subsection \<open>Selecting the next task\<close>

lemma insort_key_least:
  "\<forall>u\<in>set ys. f x \<le> f u \<Longrightarrow> insort_key f x ys = x # ys"
  by (cases ys) auto

lemma sort_key_first_min:
  fixes f :: "'a \<Rightarrow> int"
  assumes "\<forall>u\<in>set pre. f t < f u" and "\<forall>u\<in>set post. f t \<le> f u"
  shows "\<exists>ys. sort_key f (pre @ t # post) = t # ys"
  using assms
proof (induction pre)
  case Nil
  have "\<forall>u\<in>set (sort_key f post). f t \<le> f u"
    using Nil by simp
  then show ?case
    by (simp add: insort_key_least)
next
  case (Cons x pre)
  then obtain ys where "sort_key f (pre @ t # post) = t # ys"
    by auto
  moreover have "f t < f x"
    using Cons.prems by simp
  ultimately show ?case
    by simp
qed

lemma pending_first_min:
  assumes "task_status t = Pending"
    and "\<forall>u\<in>set pre. task_status u = Pending \<longrightarrow> task_priority t < task_priority u"
    and "\<forall>u\<in>set post. task_status u = Pending \<longrightarrow> task_priority t \<le> task_priority u"
  shows "\<exists>ys. sort_key task_priority
                (filter (\<lambda>u. task_status u = Pending) (pre @ t # post)) = t # ys"
proof -
  have "filter (\<lambda>u. task_status u = Pending) (pre @ t # post) =
          filter (\<lambda>u. task_status u = Pending) pre @ t #
          filter (\<lambda>u. task_status u = Pending) post"
    using assms(1) by simp
  moreover have "\<forall>u\<in>set (filter (\<lambda>u. task_status u = Pending) pre).
                   task_priority t < task_priority u"
    using assms(2) by simp
  moreover have "\<forall>u\<in>set (filter (\<lambda>u. task_status u = Pending) post).
                   task_priority t \<le> task_priority u"
    using assms(3) by simp
  ultimately show ?thesis
    using sort_key_first_min [of "filter (\<lambda>u. task_status u = Pending) pre" task_priority t
            "filter (\<lambda>u. task_status u = Pending) post"]
    by simp
qed

text \<open>
  Whenever some task is pending, the sequence splits around the pending task of lowest
  priority that comes first: the hypotheses of the selection theorem below leave no
  workstream out.
\<close>

lemma first_min_exists:
  fixes f :: "'a \<Rightarrow> int"
  assumes "\<exists>x\<in>set xs. P x"
  shows "\<exists>pre t post. xs = pre @ t # post \<and> P t \<and> (\<forall>u\<in>set pre. P u \<longrightarrow> f t < f u)
           \<and> (\<forall>u\<in>set post. P u \<longrightarrow> f t \<le> f u)"
  using assms
proof (induction xs)
  case Nil
  then show ?case by simp
next
  case (Cons x xs)
  show ?case
  proof (cases "\<exists>y\<in>set xs. P y")
    case False
    then have "P x" using Cons.prems by auto
    with False have "x # xs = [] @ x # xs \<and> P x \<and> (\<forall>u\<in>set []. P u \<longrightarrow> f x < f u)
           \<and> (\<forall>u\<in>set xs. P u \<longrightarrow> f x \<le> f u)" by auto
    then show ?thesis by blast
  next
    case True
    then obtain pre t post where d: "xs = pre @ t # post" "P t"
      "\<forall>u\<in>set pre. P u \<longrightarrow> f t < f u" "\<forall>u\<in>set post. P u \<longrightarrow> f t \<le> f u"
      using Cons.IH by blast
    show ?thesis
    proof (cases "P x \<and> f x \<le> f t")
      case True
      with d have "x # xs = [] @ x # xs \<and> P x \<and> (\<forall>u\<in>set []. P u \<longrightarrow> f x < f u)
           \<and> (\<forall>u\<in>set xs. P u \<longrightarrow> f x \<le> f u)" by fastforce
      then show ?thesis by blast
    next
      case False
      with d have "x # xs = (x # pre) @ t # post \<and> P t
           \<and> (\<forall>u\<in>set (x # pre). P u \<longrightarrow> f t < f u)
           \<and> (\<forall>u\<in>set post. P u \<longrightarrow> f t \<le> f u)" by auto
      then show ?thesis by blast
    qed
  qed
qed

lemma getNextTask_none:
  assumes "workstreams (state_json w) n = Some ws"
    and "\<forall>u\<in>set (tasks ws). task_status u \<noteq> Pending"
  shows "getNextTask n a clk w = (Inr None, w)"
proof -
  have "filter (\<lambda>u. task_status u = Pending) (tasks ws) = []"
    using assms(2) by (simp add: filter_empty_conv)
  then show ?thesis
    using assms(1) by (simp add: getNextTask_def loadState_def)
qed

lemma getNextTask_some:
  assumes "workstreams (state_json w) n = Some ws"
    and "tasks ws = pre @ t # post"
    and "task_status t = Pending"
    and "\<forall>u\<in>set pre. task_status u = Pending \<longrightarrow> task_priority t < task_priority u"
    and "\<forall>u\<in>set post. task_status u = Pending \<longrightarrow> task_priority t \<le> task_priority u"
    and "\<forall>u\<in>set pre. task_id u \<noteq> task_id t"
  shows "getNextTask n a clk w =
     (Inr (Some (t\<lparr>task_status := InProgress, assigned_to := Some a,
                   task_updated_at := clk 0\<rparr>)),
      w\<lparr>state_json := (state_json w)
           \<lparr>workstreams := (workstreams (state_json w))(n \<mapsto> ws\<lparr>tasks :=
              pre @ t\<lparr>task_status := InProgress, assigned_to := Some a,
                       task_updated_at := clk 0\<rparr> # post\<rparr>),
            updated_at := clk 1,
            version := version (state_json w) + 1\<rparr>,
         events_jsonl := events_jsonl w @
           [\<lparr>ts = clk 2, ev_agent = a, ev_action = ''task_claimed'',
             ev_data = [(''workstream'', Some n), (''task_id'', Some (task_id t))]\<rparr>]\<rparr>)"
proof -
  obtain ys where "sort_key task_priority
      (filter (\<lambda>u. task_status u = Pending) (tasks ws)) = t # ys"
    using pending_first_min [OF assms(3,4,5)] assms(2) by auto
  then have "getNextTask n a clk w =
      (case claimTask n (task_id t) a clk w of
         (Inl e, w') \<Rightarrow> (Inl e, w') | (Inr t, w') \<Rightarrow> (Inr (Some t), w'))"
    using assms(1) by (simp add: getNextTask_def loadState_def)
  then show ?thesis
    using claimTask_pending [OF assms(1,2,6) refl assms(3), of a clk]
    by simp
qed

text \<open>
  C4, as amended. In a workstream with no pending task, \<open>getNextTask\<close> returns
  \<open>null\<close> and writes nothing. Otherwise, let \<open>t\<close> be the pending task such that
  every pending task before it in the sequence has a strictly higher priority number
  and every pending task after it has one at least as high: the lowest number, and
  among equals the first created. Provided that no task stored before \<open>t\<close> bears
  the identifier of \<open>t\<close> (as when identifiers are unique within the workstream), the
  call returns \<open>t\<close> claimed for the caller (status \<open>in_progress\<close>,
  \<open>assigned_to\<close> the caller), stores it in place, saves the document and appends one
  \<open>task_claimed\<close> record. The proviso is there because the selected task is handed
  to \<open>claimTask\<close> by its identifier, and \<open>claimTask\<close> takes the first task that
  bears it.
\<close>

theorem getNextTask_selects:
  "(workstreams (state_json w) n = Some ws \<and> (\<forall>u\<in>set (tasks ws). task_status u \<noteq> Pending) \<longrightarrow>
      getNextTask n a clk w = (Inr None, w)) \<and>
   (workstreams (state_json w) n = Some ws \<and> tasks ws = pre @ t # post \<and>
    task_status t = Pending \<and>
    (\<forall>u\<in>set pre. task_status u = Pending \<longrightarrow> task_priority t < task_priority u) \<and>
    (\<forall>u\<in>set post. task_status u = Pending \<longrightarrow> task_priority t \<le> task_priority u) \<and>
    (\<forall>u\<in>set pre. task_id u \<noteq> task_id t) \<longrightarrow>
      getNextTask n a clk w =
        (Inr (Some (t\<lparr>task_status := InProgress, assigned_to := Some a,
                      task_updated_at := clk 0\<rparr>)),
         w\<lparr>state_json := (state_json w)
              \<lparr>workstreams := (workstreams (state_json w))(n \<mapsto> ws\<lparr>tasks :=
                 pre @ t\<lparr>task_status := InProgress, assigned_to := Some a,
                          task_updated_at := clk 0\<rparr> # post\<rparr>),
               updated_at := clk 1,
               version := version (state_json w) + 1\<rparr>,
            events_jsonl := events_jsonl w @
              [\<lparr>ts = clk 2, ev_agent = a, ev_action = ''task_claimed'',
                ev_data = [(''workstream'', Some n), (''task_id'', Some (task_id t))]\<rparr>]\<rparr>))"
proof (intro conjI impI)
  assume "workstreams (state_json w) n = Some ws \<and>
    (\<forall>u\<in>set (tasks ws). task_status u \<noteq> Pending)"
  then show "getNextTask n a clk w = (Inr None, w)"
    by (simp add: getNextTask_none)
next
  assume "workstreams (state_json w) n = Some ws \<and> tasks ws = pre @ t # post \<and>
    task_status t = Pending \<and>
    (\<forall>u\<in>set pre. task_status u = Pending \<longrightarrow> task_priority t < task_priority u) \<and>
    (\<forall>u\<in>set post. task_status u = Pending \<longrightarrow> task_priority t \<le> task_priority u) \<and>
    (\<forall>u\<in>set pre. task_id u \<noteq> task_id t)"
  then show "getNextTask n a clk w =
        (Inr (Some (t\<lparr>task_status := InProgress, assigned_to := Some a,
                      task_updated_at := clk 0\<rparr>)),
         w\<lparr>state_json := (state_json w)
              \<lparr>workstreams := (workstreams (state_json w))(n \<mapsto> ws\<lparr>tasks :=
                 pre @ t\<lparr>task_status := InProgress, assigned_to := Some a,
                          task_updated_at := clk 0\<rparr> # post\<rparr>),
               updated_at := clk 1,
               version := version (state_json w) + 1\<rparr>,
            events_jsonl := events_jsonl w @
              [\<lparr>ts = clk 2, ev_agent = a, ev_action = ''task_claimed'',
                ev_data = [(''workstream'', Some n), (''task_id'', Some (task_id t))]\<rparr>]\<rparr>)"
    using getNextTask_some [of w n ws pre t post a clk] by blast
qed

theorem getNextTask_selects_witness:
  "getNextTask ''w'' ''a1'' (const_clock 400) world_w = (Inr None, world_w) \<and>
   fst (getNextTask ''w'' ''a1'' (const_clock 400) world_tasks) =
     Inr (Some (task_b\<lparr>task_status := InProgress, assigned_to := Some ''a1'',
                       task_updated_at := 400\<rparr>)) \<and>
   workstreams (state_json (snd (getNextTask ''w'' ''a1'' (const_clock 400) world_tasks))) ''w'' =
     Some (ws_w [task_a, task_b\<lparr>task_status := InProgress, assigned_to := Some ''a1'',
                                 task_updated_at := 400\<rparr>, task_c]) \<and>
   fst (getNextTask ''w'' ''a2'' (const_clock 450) world_claimed) =
     Inr (Some (task_c\<lparr>task_status := InProgress, assigned_to := Some ''a2'',
                       task_updated_at := 450\<rparr>))"
  using getNextTask_selects [where w = world_w and n = "''w''" and a = "''a1''"
          and clk = "const_clock 400" and ws = "ws_w []"]
        getNextTask_selects [where w = world_tasks and n = "''w''" and a = "''a1''"
          and clk = "const_clock 400" and ws = "ws_w [task_a, task_b, task_c]"
          and pre = "[task_a]" and t = task_b and post = "[task_c]"]
        getNextTask_selects [where w = world_claimed and n = "''w''" and a = "''a2''"
          and clk = "const_clock 450"
          and ws = "ws_w [task_a, task_b\<lparr>task_status := InProgress, assigned_to := Some ''a1'',
                                         task_updated_at := 400\<rparr>, task_c]"
          and pre = "[task_a, task_b\<lparr>task_status := InProgress, assigned_to := Some ''a1'',
                                     task_updated_at := 400\<rparr>]"
          and t = task_c and post = "[]"]
  by (simp add: world_w_eq world_tasks_eq world_claimed_ws sample_defs)

text \<open>
  C4 as it is written speaks of every workstream. Workstream \<open>w\<close> holds two
  pending tasks that bear the identifier \<open>cafe0000\<close>, the first of priority 3 and
  the second of priority 1. \<open>getNextTask\<close> selects the second, and the call claims
  and returns the first: the task of priority 1 stays pending. When the first of the
  two is done already, the call raises InvalidState and writes nothing, although a
  task is pending.
\<close>

theorem getNextTask_duplicate_id_counterexample:
  "tasks (the (workstreams (state_json world_dup) ''w'')) =
     [task_T ''cafe0000'' 3 200, task_T ''cafe0000'' 1 250] \<and>
   fst (getNextTask ''w'' ''a1'' (const_clock 400) world_dup) =
     Inr (Some ((task_T ''cafe0000'' 3 200)\<lparr>task_status := InProgress,
                  assigned_to := Some ''a1'', task_updated_at := 400\<rparr>)) \<and>
   fst (getNextTask ''w'' ''a1'' (const_clock 400) world_dup) \<noteq>
     Inr (Some ((task_T ''cafe0000'' 1 250)\<lparr>task_status := InProgress,
                  assigned_to := Some ''a1'', task_updated_at := 400\<rparr>)) \<and>
   tasks (the (workstreams
     (state_json (snd (getNextTask ''w'' ''a1'' (const_clock 400) world_dup))) ''w'')) =
     [(task_T ''cafe0000'' 3 200)\<lparr>task_status := InProgress, assigned_to := Some ''a1'',
                                    task_updated_at := 400\<rparr>,
      task_T ''cafe0000'' 1 250] \<and>
   tasks (the (workstreams (state_json world_dup_done) ''w'')) =
     [(task_T ''cafe0000'' 3 200)\<lparr>task_status := Done, task_updated_at := 220\<rparr>,
      task_T ''cafe0000'' 1 250] \<and>
   getNextTask ''w'' ''a1'' (const_clock 400) world_dup_done =
     (Inl (InvalidState ''cafe0000'' Done), world_dup_done)"
  by (simp add: world_dup_ws world_dup_done_ws getNextTask_def claimTask_def engine_defs
        const_clock_def ws_w_def task_T_def)

subsection \<open>Every call: what a save does, and what a failure leaves\<close>

lemma createWorkstream_saves:
  "createWorkstream n opts clk w = (Inr x, w') \<Longrightarrow>
   version (state_json w') = version (state_json w) + 1 \<and> updated_at (state_json w') = clk 1"
  by (auto simp: createWorkstream_def engine_defs split: option.splits)

lemma addTask_saves:
  "addTask n opts rnd clk w = (Inr x, w') \<Longrightarrow>
   version (state_json w') = version (state_json w) + 1 \<and> updated_at (state_json w') = clk 2"
  by (auto simp: addTask_def engine_defs split: option.splits)

lemma claimTask_saves:
  "claimTask n i a clk w = (Inr x, w') \<Longrightarrow>
   version (state_json w') = version (state_json w) + 1 \<and> updated_at (state_json w') = clk 1"
  by (auto simp: claimTask_def engine_defs split: option.splits if_splits)

lemma completeTask_saves:
  "completeTask n i r clk w = (Inr x, w') \<Longrightarrow>
   version (state_json w') = version (state_json w) + 1 \<and> updated_at (state_json w') = clk 1"
  by (auto simp: completeTask_def engine_defs split: option.splits)

lemma getNextTask_saves:
  "getNextTask n a clk w = (Inr (Some x), w') \<Longrightarrow>
   version (state_json w') = version (state_json w) + 1 \<and> updated_at (state_json w') = clk 1"
  by (auto simp: getNextTask_def loadState_def Let_def
           split: option.splits list.splits prod.splits sum.splits dest: claimTask_saves)

lemma registerAgent_saves:
  "registerAgent a opts clk w = (x, w') \<Longrightarrow>
   version (state_json w') = version (state_json w) + 1 \<and> updated_at (state_json w') = clk 2"
  by (auto simp: registerAgent_def engine_defs)

lemma heartbeat_saves:
  "agents (state_json w) a \<noteq> None \<Longrightarrow>
   version (state_json (heartbeat a clk w)) = version (state_json w) + 1 \<and>
   updated_at (state_json (heartbeat a clk w)) = clk 1"
  by (auto simp: heartbeat_def engine_defs)

lemma heartbeat_absent: "agents (state_json w) a = None \<Longrightarrow> heartbeat a clk w = w"
  by (simp add: heartbeat_def engine_defs)

lemma acquireLock_saves:
  "acquireLock r a ttl clk w = (True, w') \<Longrightarrow>
   version (state_json w') = version (state_json w) + 1 \<and>
   updated_at (state_json w') = clk (case locks (state_json w) r of None \<Rightarrow> 1 | Some _ \<Rightarrow> 2)"
  by (auto simp: acquireLock_def engine_defs numeral_2_eq_2 split: option.splits if_splits)

lemma releaseLock_saves:
  "releaseLock r a clk w = (True, w') \<Longrightarrow>
   version (state_json w') = version (state_json w) + 1 \<and> updated_at (state_json w') = clk 0"
  by (auto simp: releaseLock_def engine_defs split: option.splits if_splits)

lemma createWorkstream_fails: "createWorkstream n opts clk w = (Inl e, w') \<Longrightarrow> w' = w"
  by (auto simp: createWorkstream_def engine_defs split: option.splits)

lemma addTask_fails: "addTask n opts rnd clk w = (Inl e, w') \<Longrightarrow> w' = w"
  by (auto simp: addTask_def engine_defs split: option.splits)

lemma claimTask_fails: "claimTask n i a clk w = (Inl e, w') \<Longrightarrow> w' = w"
  by (auto simp: claimTask_def engine_defs split: option.splits if_splits)

lemma completeTask_fails: "completeTask n i r clk w = (Inl e, w') \<Longrightarrow> w' = w"
  by (auto simp: completeTask_def engine_defs split: option.splits)

lemma getNextTask_fails:
  assumes "getNextTask n a clk w = (r, w')" and "r = Inr None \<or> isl r"
  shows "w' = w"
proof (cases "workstreams (state_json w) n")
  case None
  then show ?thesis
    using assms(1) by (simp add: getNextTask_def loadState_def)
next
  case (Some ws)
  show ?thesis
  proof (cases "sort_key task_priority (filter (\<lambda>t. task_status t = Pending) (tasks ws))")
    case Nil
    then show ?thesis
      using assms(1) Some by (simp add: getNextTask_def loadState_def)
  next
    case (Cons p ps)
    obtain r' w'' where c: "claimTask n (task_id p) a clk w = (r', w'')"
      by (cases "claimTask n (task_id p) a clk w")
    show ?thesis
    proof (cases r')
      case (Inl e)
      then have "w'' = w" using c claimTask_fails by blast
      then show ?thesis
        using assms(1) Some Cons c Inl by (simp add: getNextTask_def loadState_def)
    next
      case (Inr t)
      then have "r = Inr (Some t)"
        using assms(1) Some Cons c by (simp add: getNextTask_def loadState_def)
      then show ?thesis using assms(2) by simp
    qed
  qed
qed

lemma acquireLock_fails: "acquireLock r a ttl clk w = (False, w') \<Longrightarrow> w' = w"
  by (auto simp: acquireLock_def engine_defs split: option.splits if_splits)

lemma releaseLock_fails: "releaseLock r a clk w = (False, w') \<Longrightarrow> w' = w"
  by (auto simp: releaseLock_def engine_defs split: option.splits if_splits)

lemma deleteKnowledge_fails: "deleteKnowledge t a clk w = (False, w') \<Longrightarrow> w' = w"
  by (auto simp: deleteKnowledge_def engine_defs split: option.splits)

lemma save_effect:
  assumes "successful_mutation c clk w"
  shows "version (state_json (snd (exec c clk w))) = version (state_json w) + 1 \<and>
         updated_at (state_json (snd (exec c clk w))) = clk (save_reading c w)"
proof (cases c)
  case (CreateWorkstream n opts)
  obtain r w' where e: "createWorkstream n opts clk w = (r, w')"
    by (cases "createWorkstream n opts clk w")
  then obtain x where "r = Inr x"
    using assms CreateWorkstream by (cases r) simp_all
  then show ?thesis
    using e CreateWorkstream createWorkstream_saves [of n opts clk w x w'] by simp
next
  case (AddTask n opts rnd)
  obtain r w' where e: "addTask n opts rnd clk w = (r, w')"
    by (cases "addTask n opts rnd clk w")
  then obtain x where "r = Inr x"
    using assms AddTask by (cases r) simp_all
  then show ?thesis
    using e AddTask addTask_saves [of n opts rnd clk w x w'] by simp
next
  case (ClaimTask n i a)
  obtain r w' where e: "claimTask n i a clk w = (r, w')"
    by (cases "claimTask n i a clk w")
  then obtain x where "r = Inr x"
    using assms ClaimTask by (cases r) simp_all
  then show ?thesis
    using e ClaimTask claimTask_saves [of n i a clk w x w'] by simp
next
  case (CompleteTask n i res)
  obtain r w' where e: "completeTask n i res clk w = (r, w')"
    by (cases "completeTask n i res clk w")
  then obtain x where "r = Inr x"
    using assms CompleteTask by (cases r) simp_all
  then show ?thesis
    using e CompleteTask completeTask_saves [of n i res clk w x w'] by simp
next
  case (GetNextTask n a)
  obtain r w' where e: "getNextTask n a clk w = (r, w')"
    by (cases "getNextTask n a clk w")
  then obtain x where "r = Inr (Some x)"
    using assms GetNextTask by (cases r) (auto split: option.splits)
  then show ?thesis
    using e GetNextTask getNextTask_saves [of n a clk w x w'] by simp
next
  case (RegisterAgent a opts)
  obtain x w' where e: "registerAgent a opts clk w = (x, w')"
    by (cases "registerAgent a opts clk w")
  then show ?thesis
    using RegisterAgent registerAgent_saves [of a opts clk w x w'] by simp
next
  case (Heartbeat a)
  then show ?thesis
    using assms heartbeat_saves [of w a clk] by simp
next
  case (AcquireLock r a ttl)
  obtain b w' where e: "acquireLock r a ttl clk w = (b, w')"
    by (cases "acquireLock r a ttl clk w")
  then have "b" using assms AcquireLock by simp
  then show ?thesis
    using e AcquireLock acquireLock_saves [of r a ttl clk w w'] by simp
next
  case (ReleaseLock r a)
  obtain b w' where e: "releaseLock r a clk w = (b, w')"
    by (cases "releaseLock r a clk w")
  then have "b" using assms ReleaseLock by simp
  then show ?thesis
    using e ReleaseLock releaseLock_saves [of r a clk w w'] by simp
next
  case (WriteKnowledge t c' a)
  then show ?thesis using assms by simp
next
  case (DeleteKnowledge t a)
  then show ?thesis using assms by simp
next
  case (LogEvent a act d)
  then show ?thesis using assms by simp
qed

lemma failed_unchanged:
  assumes "failed (fst (exec c clk w))"
  shows "snd (exec c clk w) = w"
proof (cases c)
  case (CreateWorkstream n opts)
  obtain r w' where e: "createWorkstream n opts clk w = (r, w')"
    by (cases "createWorkstream n opts clk w")
  then obtain x where "r = Inl x"
    using assms CreateWorkstream by (cases r) simp_all
  then show ?thesis
    using e CreateWorkstream createWorkstream_fails [of n opts clk w x w'] by simp
next
  case (AddTask n opts rnd)
  obtain r w' where e: "addTask n opts rnd clk w = (r, w')"
    by (cases "addTask n opts rnd clk w")
  then obtain x where "r = Inl x"
    using assms AddTask by (cases r) simp_all
  then show ?thesis
    using e AddTask addTask_fails [of n opts rnd clk w x w'] by simp
next
  case (ClaimTask n i a)
  obtain r w' where e: "claimTask n i a clk w = (r, w')"
    by (cases "claimTask n i a clk w")
  then obtain x where "r = Inl x"
    using assms ClaimTask by (cases r) simp_all
  then show ?thesis
    using e ClaimTask claimTask_fails [of n i a clk w x w'] by simp
next
  case (CompleteTask n i res)
  obtain r w' where e: "completeTask n i res clk w = (r, w')"
    by (cases "completeTask n i res clk w")
  then obtain x where "r = Inl x"
    using assms CompleteTask by (cases r) simp_all
  then show ?thesis
    using e CompleteTask completeTask_fails [of n i res clk w x w'] by simp
next
  case (GetNextTask n a)
  obtain r w' where e: "getNextTask n a clk w = (r, w')"
    by (cases "getNextTask n a clk w")
  then have "r = Inr None \<or> isl r"
    using assms GetNextTask by (cases r) (auto split: option.splits)
  then show ?thesis
    using e GetNextTask getNextTask_fails [of n a clk w r w']
    by (auto split: sum.splits option.splits)
next
  case (RegisterAgent a opts)
  then show ?thesis
    using assms by (cases "registerAgent a opts clk w") simp
next
  case (Heartbeat a)
  then show ?thesis using assms by simp
next
  case (AcquireLock r a ttl)
  obtain b w' where e: "acquireLock r a ttl clk w = (b, w')"
    by (cases "acquireLock r a ttl clk w")
  then have "\<not> b" using assms AcquireLock by simp
  then show ?thesis
    using e AcquireLock acquireLock_fails [of r a ttl clk w w'] by simp
next
  case (ReleaseLock r a)
  obtain b w' where e: "releaseLock r a clk w = (b, w')"
    by (cases "releaseLock r a clk w")
  then have "\<not> b" using assms ReleaseLock by simp
  then show ?thesis
    using e ReleaseLock releaseLock_fails [of r a clk w w'] by simp
next
  case (WriteKnowledge t c' a)
  then show ?thesis using assms by simp
next
  case (DeleteKnowledge t a)
  obtain b w' where e: "deleteKnowledge t a clk w = (b, w')"
    by (cases "deleteKnowledge t a clk w")
  then have "\<not> b" using assms DeleteKnowledge by simp
  then show ?thesis
    using e DeleteKnowledge deleteKnowledge_fails [of t a clk w w'] by simp
next
  case (LogEvent a act d)
  then show ?thesis
    using assms by (simp add: logEvent_def Let_def)
qed

text \<open>A call that is no successful mutation leaves the state document as it was.\<close>

lemma no_save_without_mutation:
  assumes "\<not> successful_mutation c clk w"
  shows "state_json (snd (exec c clk w)) = state_json w"
proof (cases c)
  case (CreateWorkstream n opts)
  then have "failed (fst (exec c clk w))"
    using assms by (cases "fst (exec c clk w)") simp_all
  then show ?thesis by (simp add: failed_unchanged)
next
  case (AddTask n opts rnd)
  then have "failed (fst (exec c clk w))"
    using assms by (cases "fst (exec c clk w)") simp_all
  then show ?thesis by (simp add: failed_unchanged)
next
  case (ClaimTask n i a)
  then have "failed (fst (exec c clk w))"
    using assms by (cases "fst (exec c clk w)") simp_all
  then show ?thesis by (simp add: failed_unchanged)
next
  case (CompleteTask n i res)
  then have "failed (fst (exec c clk w))"
    using assms by (cases "fst (exec c clk w)") simp_all
  then show ?thesis by (simp add: failed_unchanged)
next
  case (GetNextTask n a)
  obtain r w' where e: "getNextTask n a clk w = (r, w')"
    by (cases "getNextTask n a clk w")
  then have "r = Inr None \<or> isl r"
    using assms GetNextTask by (cases r) (auto split: option.splits)
  then have "w' = w"
    using e getNextTask_fails by blast
  then show ?thesis
    using e GetNextTask by (auto split: sum.splits option.splits)
next
  case (RegisterAgent a opts)
  then show ?thesis
    using assms by (cases "registerAgent a opts clk w") simp
next
  case (Heartbeat a)
  then show ?thesis
    using assms by (simp add: heartbeat_absent)
next
  case (AcquireLock r a ttl)
  then have "failed (fst (exec c clk w))"
    using assms by (cases "acquireLock r a ttl clk w") simp
  then show ?thesis by (simp add: failed_unchanged)
next
  case (ReleaseLock r a)
  then have "failed (fst (exec c clk w))"
    using assms by (cases "releaseLock r a clk w") simp
  then show ?thesis by (simp add: failed_unchanged)
next
  case (WriteKnowledge t c' a)
  then show ?thesis
    by (simp add: writeKnowledge_def logEvent_def Let_def split: option.splits)
next
  case (DeleteKnowledge t a)
  then show ?thesis
    by (simp add: deleteKnowledge_def logEvent_def Let_def split: option.splits)
next
  case (LogEvent a act d)
  then show ?thesis
    by (simp add: logEvent_def Let_def)
qed

text \<open>
  C1. A call that completes as a mutation of the state document (a successful
  \<open>createWorkstream\<close>, \<open>addTask\<close>, \<open>claimTask\<close> or \<open>completeTask\<close>, a
  \<open>getNextTask\<close> that claims a task, a \<open>registerAgent\<close>, a \<open>heartbeat\<close> of a
  registered agent, an \<open>acquireLock\<close> or \<open>releaseLock\<close> that returns \<open>true\<close>)
  leaves the version one above what it was, and \<open>updated_at\<close> equal to the clock as
  \<open>saveState\<close> read it. So when a second such call follows and its save reads the
  clock no earlier than the first, \<open>updated_at\<close> does not decrease. Any other call
  leaves the state document untouched: there is no save without an increment.
\<close>

theorem version_increments_on_save:
  "(successful_mutation c clk w \<longrightarrow>
      version (state_json (snd (exec c clk w))) = version (state_json w) + 1 \<and>
      updated_at (state_json (snd (exec c clk w))) = clk (save_reading c w) \<and>
      (successful_mutation c' clk' (snd (exec c clk w)) \<and>
       clk (save_reading c w) \<le> clk' (save_reading c' (snd (exec c clk w))) \<longrightarrow>
         updated_at (state_json (snd (exec c clk w))) \<le>
         updated_at (state_json (snd (exec c' clk' (snd (exec c clk w))))))) \<and>
   (\<not> successful_mutation c clk w \<longrightarrow> state_json (snd (exec c clk w)) = state_json w)"
  using save_effect [of c clk w] save_effect [of c' clk' "snd (exec c clk w)"]
    no_save_without_mutation [of c clk w]
  by auto

theorem version_increments_on_save_witness:
  "version (state_json world0) = 0 \<and>
   version (state_json (snd (exec (CreateWorkstream ''w'' no_ws_opts) (ticking_clock 100)
     world0))) = 1 \<and>
   updated_at (state_json (snd (exec (CreateWorkstream ''w'' no_ws_opts) (ticking_clock 100)
     world0))) = 101 \<and>
   updated_at (state_json (snd (exec (AcquireLock ''res'' ''a1'' None) (ticking_clock 200)
     (snd (exec (CreateWorkstream ''w'' no_ws_opts) (ticking_clock 100) world0))))) = 201 \<and>
   version (state_json (snd (exec (AcquireLock ''res'' ''a1'' None) (ticking_clock 200)
     (snd (exec (CreateWorkstream ''w'' no_ws_opts) (ticking_clock 100) world0))))) = 2 \<and>
   state_json (snd (exec (ReleaseLock ''res'' ''a2'') (ticking_clock 300) world0)) =
     state_json world0"
  using version_increments_on_save [of "CreateWorkstream ''w'' no_ws_opts" "ticking_clock 100"
          world0 "AcquireLock ''res'' ''a1'' None" "ticking_clock 200"]
        version_increments_on_save [of "AcquireLock ''res'' ''a1'' None" "ticking_clock 200"
          "snd (exec (CreateWorkstream ''w'' no_ws_opts) (ticking_clock 100) world0)"
          "AcquireLock ''res'' ''a1'' None" "ticking_clock 200"]
        version_increments_on_save [of "ReleaseLock ''res'' ''a2''" "ticking_clock 300" world0
          "ReleaseLock ''res'' ''a2''" "ticking_clock 300"]
  by (simp add: createWorkstream_def acquireLock_def releaseLock_def engine_defs js_defs
        sample_defs)



subsection \<open>New tasks\<close>

lemma hex_digit_lower: "n < 16 \<Longrightarrow> hex_digit n \<in> set ''0123456789abcdef''"
  unfolding hex_digit_def by (rule nth_mem) simp

lemma hex_byte_props:
  "length (hex_byte b) = 2 \<and> (\<forall>c\<in>set (hex_byte b). c \<in> set ''0123456789abcdef'')"
proof -
  have "unat b < 256"
    using unsigned_less [of b, where ?'a = nat] by simp
  then have "unat b div 16 < 16" and "unat b mod 16 < 16"
    by simp_all
  then show ?thesis
    using hex_digit_lower [of "unat b div 16"] hex_digit_lower [of "unat b mod 16"]
    by (simp add: hex_byte_def)
qed

text \<open>An identifier is eight characters long, each a digit or one of \<open>a\<close> to \<open>f\<close>.\<close>

lemma genId_props:
  "length (genId rnd) = 8 \<and> (\<forall>c\<in>set (genId rnd). c \<in> set ''0123456789abcdef'')"
proof -
  obtain b0 b1 b2 b3 where r: "rnd = (b0, b1, b2, b3)"
    by (cases rnd)
  have "length (genId rnd) = 8"
    unfolding r using hex_byte_props by simp
  moreover have "\<forall>c\<in>set (genId rnd). c \<in> set ''0123456789abcdef''"
    unfolding r genId.simps set_append using hex_byte_props by blast
  ultimately show ?thesis ..
qed

text \<open>
  What \<open>addTask\<close> returns on an existing workstream: the identifier made from the
  four random bytes, status \<open>pending\<close>, the caller's title, and the caller's
  priority unless it is absent or 0, when the priority is 5.
\<close>

lemma addTask_returns:
  assumes "workstreams (state_json w) n = Some ws"
  shows "\<exists>t. fst (addTask n opts rnd clk w) = Inr t \<and> task_id t = genId rnd \<and>
           task_status t = Pending \<and> title t = to_title opts \<and>
           task_priority t =
             (case to_priority opts of None \<Rightarrow> 5 | Some p \<Rightarrow> if p = 0 then 5 else p)"
  using assms
  by (simp add: addTask_def engine_defs js_defs split: option.splits)

text \<open>
  C7. The claim holds of the identifier, the status and the title, and of every
  priority but 0: \<open>opts.priority || 5\<close> takes the caller's 0 for an absent value. On
  workstream \<open>w\<close>, \<open>addTask\<close> with title \<open>T\<close> and priority 0 returns a task of
  priority 5.
\<close>

theorem addTask_priority_zero_becomes_5:
  "fst (addTask ''w'' (opts_T (Some 0)) (0xCA, 0xFE, 0x00, 0x00) (const_clock 200) world_w) =
     Inr (task_T ''cafe0000'' 5 200)"
  by (simp add: world_w_eq addTask_def engine_defs js_defs hex_byte_def hex_digit_def
        opts_T_def task_T_def const_clock_def)

subsection \<open>Querying the journal\<close>

lemma slice_from_Nil: "slice_from k [] = []"
  by (simp add: slice_from_def)

lemma getEvents_matches:
  "getEvents opts w =
     (let m = filter (matches opts) (events_jsonl w)
      in if truthy_int (q_last opts) then slice_from (- the (q_last opts)) m else m)"
proof (cases "events_jsonl w = []")
  case True
  then show ?thesis
    by (simp add: getEvents_def slice_from_Nil)
next
  case False
  then show ?thesis
    by (cases "q_since opts")
       (auto simp: getEvents_def matches_def Let_def intro!: arg_cong2 [where f = slice_from]
          filter_cong)
qed

text \<open>
  C8, as amended. The records that match are those that satisfy every filter given:
  the agent and the action when given and non-empty, and \<open>since\<close>. With
  \<open>last = N\<close> and \<open>N \<ge> 1\<close>, the query returns the final \<open>N\<close> of them (all, when
  there are fewer), in the order of the journal, and so never more than \<open>N\<close>
  records. With \<open>last\<close> absent or 0, it returns all of them.
\<close>

theorem getEvents_last:
  "(q_last opts = Some n \<and> 0 < n \<longrightarrow>
      getEvents opts w =
        drop (length (filter (matches opts) (events_jsonl w)) - nat n)
          (filter (matches opts) (events_jsonl w)) \<and>
      int (length (getEvents opts w)) \<le> n) \<and>
   (q_last opts = None \<or> q_last opts = Some 0 \<longrightarrow>
      getEvents opts w = filter (matches opts) (events_jsonl w))"
  by (auto simp: getEvents_matches truthy_int_def slice_from_def Let_def max_def nat_diff_distrib'
        intro!: arg_cong2 [where f = drop])

theorem getEvents_last_witness:
  "getEvents (last_opts 2) world_tasks = drop 2 (events_jsonl world_tasks) \<and>
   length (getEvents (last_opts 2) world_tasks) = 2 \<and>
   getEvents \<lparr>q_agent = Some ''a1'', q_action = Some ''lock_acquired'', q_since = Some 1000,
              q_last = None\<rparr> (world_locked 30) = events_jsonl (world_locked 30)"
  using getEvents_last [of "last_opts 2" 2 world_tasks]
        getEvents_last [of "\<lparr>q_agent = Some ''a1'', q_action = Some ''lock_acquired'',
          q_since = Some 1000, q_last = None\<rparr>" 1 "world_locked 30"]
  by (simp add: last_opts_def matches_def truthy_str_def world_tasks_eq world_locked_eq)

text \<open>
  C8 as it is written promises at most \<open>N\<close> records for every \<open>N\<close>. With
  \<open>last = 0\<close> the query on a journal of four records returns the four of them.
\<close>

theorem getEvents_last_zero_counterexample:
  "\<not> int (length (getEvents (last_opts 0) world_tasks)) \<le> 0"
  by (simp add: getEvents_def last_opts_def truthy_str_def truthy_int_def world_tasks_eq)

end
